theory Spec2Isabelle
  imports Complex_Main "HOL-Library.Word"
begin

section \<open>JavaScript values used by the ChainGuard frontend\<close>

text \<open>
  A JavaScript \<open>number\<close> is a finite double, one of the two infinities, or NaN. Every
  finite double is a real number and the comparison operators on finite doubles agree
  with the order of the reals, so a finite number is modelled by the real it denotes
  (the two zeros are the same real, as they are for \<open>>=\<close> and for truthiness).
\<close>

datatype number = Finite real | PosInf | NegInf | NaN

text \<open>The operator \<open>a >= b\<close>: false whenever an operand is NaN.\<close>

fun js_ge :: "number \<Rightarrow> number \<Rightarrow> bool" where
  "js_ge NaN _ = False"
| "js_ge _ NaN = False"
| "js_ge (Finite a) (Finite b) = (a \<ge> b)"
| "js_ge PosInf _ = True"
| "js_ge _ NegInf = True"
| "js_ge (Finite _) PosInf = False"
| "js_ge NegInf (Finite _) = False"
| "js_ge NegInf PosInf = False"

text \<open>The operator \<open>a < b\<close>: false whenever an operand is NaN.\<close>

fun js_lt :: "number \<Rightarrow> number \<Rightarrow> bool" where
  "js_lt NaN _ = False"
| "js_lt _ NaN = False"
| "js_lt (Finite a) (Finite b) = (a < b)"
| "js_lt PosInf _ = False"
| "js_lt _ NegInf = False"
| "js_lt (Finite _) PosInf = True"
| "js_lt NegInf (Finite _) = True"
| "js_lt NegInf PosInf = True"

text \<open>Truthiness of a number: \<open>0\<close>, \<open>-0\<close> and NaN are falsy.\<close>

fun truthy :: "number \<Rightarrow> bool" where
  "truthy (Finite r) = (r \<noteq> 0)"
| "truthy NaN = False"
| "truthy _ = True"

text \<open>
  A JavaScript string is a sequence of UTF-16 code units; \<open>length\<close> and
  \<open>substring\<close> count code units. \<open>js\<close> embeds an ASCII literal of the source.
\<close>

type_synonym jsstring = "16 word list"

definition js :: "string \<Rightarrow> jsstring" where
  "js s = map of_char s"

section \<open>Risk bands (predict page and dashboard)\<close>

record band =
  label :: jsstring
  color :: jsstring

text \<open>\<open>riskBand\<close> of the predict page.\<close>

definition riskBand :: "number \<Rightarrow> band" where
  "riskBand score =
     (if js_ge score (Finite 80) then \<lparr>label = js ''Critical'', color = js ''bg-red-600''\<rparr>
      else if js_ge score (Finite 60) then \<lparr>label = js ''High'', color = js ''bg-orange-500''\<rparr>
      else if js_ge score (Finite 40) then \<lparr>label = js ''Medium'', color = js ''bg-yellow-500''\<rparr>
      else \<lparr>label = js ''Low'', color = js ''bg-green-600''\<rparr>)"

text \<open>\<open>riskBand\<close> of the dashboard (\<open>frontend/app/page.tsx\<close>), a separate copy.\<close>

definition riskBand_home :: "number \<Rightarrow> band" where
  "riskBand_home score =
     (if js_ge score (Finite 80) then \<lparr>label = js ''Critical'', color = js ''bg-red-600''\<rparr>
      else if js_ge score (Finite 60) then \<lparr>label = js ''High'', color = js ''bg-orange-500''\<rparr>
      else if js_ge score (Finite 40) then \<lparr>label = js ''Medium'', color = js ''bg-yellow-500''\<rparr>
      else \<lparr>label = js ''Low'', color = js ''bg-green-600''\<rparr>)"


section \<open>String operations\<close>

text \<open>
  \<open>String.prototype.substring(start, end)\<close>: both indices are clamped to
  \<open>[0, length]\<close>, a missing \<open>end\<close> is the length, and the two are swapped when
  \<open>start\<close> exceeds \<open>end\<close>.
\<close>

definition substring :: "jsstring \<Rightarrow> int \<Rightarrow> int option \<Rightarrow> jsstring" where
  "substring s start end =
     (let len = int (length s);
          finalStart = min (max start 0) len;
          finalEnd = (case end of None \<Rightarrow> len | Some e \<Rightarrow> min (max e 0) len);
          from = min finalStart finalEnd;
          to = max finalStart finalEnd
      in take (nat (to - from)) (drop (nat from) s))"

text \<open>The code units that \<open>trim\<close> strips: ECMAScript white space and line terminators.\<close>

definition isWhiteSpace :: "16 word \<Rightarrow> bool" where
  "isWhiteSpace c \<longleftrightarrow>
     c \<in> {0x09, 0x0A, 0x0B, 0x0C, 0x0D, 0x20, 0xA0, 0x1680, 0x2028, 0x2029, 0x202F,
          0x205F, 0x3000, 0xFEFF} \<or> (0x2000 \<le> c \<and> c \<le> 0x200A)"

definition trim :: "jsstring \<Rightarrow> jsstring" where
  "trim s = rev (dropWhile isWhiteSpace (rev (dropWhile isWhiteSpace s)))"

text \<open>The operator \<open>a ?? b\<close> on a value that may be \<open>null\<close> or \<open>undefined\<close>.\<close>

definition nullish :: "'a option \<Rightarrow> 'a option \<Rightarrow> 'a option" where
  "nullish a b = (case a of Some v \<Rightarrow> Some v | None \<Rightarrow> b)"

section \<open>The predict page\<close>

text \<open>The type \<open>TxResult\<close>; the two anomaly fields are optional.\<close>

record TxResult =
  secure_id :: jsstring
  fraud_prob :: number
  gnn_fraud_prob :: number
  anomaly_score :: "number option"
  anomaly_score_norm :: "number option"
  risk_score :: number
  alert :: jsstring

text \<open>The four \<open>useState\<close> cells of \<open>PredictPage\<close>.\<close>

record predict_page =
  txId :: jsstring
  result :: "TxResult option"
  loading :: bool
  error :: jsstring

text \<open>
  What the lookup \<open>fetch\<close> and \<open>res.json()\<close> can do: the fetch rejects, or it
  resolves to a response with its \<open>ok\<close> flag, whose body either fails to parse or
  parses to a record or to \<open>null\<close>.
\<close>

datatype body = JsonRejected | Json "TxResult option"

datatype fetched = FetchRejected | Response bool body

text \<open>The message of the \<open>catch\<close> block; its first code unit is U+274C.\<close>

definition notFoundMessage :: jsstring where
  "notFoundMessage = 0x274C # js '' Transaction not found in ML database''"

text \<open>The body of the \<open>try\<close> block: \<open>Inl ()\<close> is a throw, \<open>Inr data\<close> the parsed body.\<close>

definition tryLookup :: "fetched \<Rightarrow> unit + TxResult option" where
  "tryLookup f =
     (case f of
        FetchRejected \<Rightarrow> Inl ()
      | Response ok b \<Rightarrow>
          (if \<not> ok then Inl ()
           else (case b of JsonRejected \<Rightarrow> Inl () | Json data \<Rightarrow> Inr data)))"

text \<open>
  \<open>handleSubmit\<close>, from the state at the call to the state once the handler has
  settled; the second argument is the outcome of the request for
  \<open>/tx/${txId.trim()}\<close>.
\<close>

definition handleSubmit :: "predict_page \<Rightarrow> fetched \<Rightarrow> predict_page" where
  "handleSubmit st f =
     (if trim (txId st) = [] then st
      else
        (let st1 = st\<lparr>loading := True, error := [], result := None\<rparr>;
             st2 = (case tryLookup f of
                      Inr data \<Rightarrow> st1\<lparr>result := data\<rparr>
                    | Inl _ \<Rightarrow> st1\<lparr>error := notFoundMessage\<rparr>)
         in st2\<lparr>loading := False\<rparr>))"

definition getTruncatedId :: "jsstring \<Rightarrow> jsstring" where
  "getTruncatedId secureId =
     (if length secureId \<le> 16 then secureId
      else substring secureId 0 (Some 8) @ js ''...''
           @ substring secureId (int (length secureId) - 8) None)"

text \<open>
  What a numeric cell renders: the dash, or \<open>v.toFixed(digits)\<close> of a number \<open>v\<close>
  (the formatting itself is left uninterpreted).
\<close>

datatype shown = Dash | ToFixed nat number

text \<open>
  The anomaly cell of the predict page:
  \<open>(result.anomaly_score_norm ?? result.anomaly_score)?.toFixed(3) ?? "-"\<close>.
\<close>

definition anomalyShown_predict :: "TxResult \<Rightarrow> shown" where
  "anomalyShown_predict r =
     (case nullish (anomaly_score_norm r) (anomaly_score r) of
        Some v \<Rightarrow> ToFixed 3 v
      | None \<Rightarrow> Dash)"

section \<open>The transaction page\<close>

text \<open>The route parameter \<open>id\<close> of \<open>useParams\<close>: a string, an array of strings or undefined.\<close>

datatype param = PUndefined | PString jsstring | PArray "jsstring list"

definition displayId :: "param \<Rightarrow> param" where
  "displayId id' =
     (case id' of
        PString s \<Rightarrow>
          (if length s > 16
           then PString (substring s 0 (Some 8) @ js ''...''
                         @ substring s (int (length s) - 8) None)
           else PString s)
      | _ \<Rightarrow> id')"

text \<open>
  \<open>anomaly = txData?.anomaly_score ?? txData?.anomaly_score_norm ?? null\<close>, and the
  cell that renders it: \<open>anomaly ? anomaly.toFixed(3) : "-"\<close>.
\<close>

definition anomaly :: "TxResult option \<Rightarrow> number option" where
  "anomaly txData =
     nullish (case txData of None \<Rightarrow> None | Some t \<Rightarrow> anomaly_score t)
       (nullish (case txData of None \<Rightarrow> None | Some t \<Rightarrow> anomaly_score_norm t) None)"

definition anomalyShown_tx :: "TxResult option \<Rightarrow> shown" where
  "anomalyShown_tx txData =
     (case anomaly txData of
        Some v \<Rightarrow> (if truthy v then ToFixed 3 v else Dash)
      | None \<Rightarrow> Dash)"

text \<open>A lookup result whose raw anomaly score is exactly zero, used in the examples below.\<close>

definition exampleTx :: TxResult where
  "exampleTx =
     \<lparr>secure_id = js ''ab12'', fraud_prob = Finite 0.9, gnn_fraud_prob = Finite 0.1,
      anomaly_score = Some (Finite 0), anomaly_score_norm = Some (Finite 0.5),
      risk_score = Finite 71, alert = js ''High''\<rparr>"

section \<open>The graph response and the graphology graph\<close>

text \<open>
  A field of a JSON object read without a declared type: \<open>is_flagged\<close> is compared
  with \<open>===\<close> against both \<open>true\<close> and \<open>1\<close>.
\<close>

datatype jsval = JUndefined | JNull | JBool bool | JNum number | JStr jsstring

text \<open>
  One element of \<open>graph.nodes\<close> and of \<open>graph.edges\<close> in the response of
  \<open>/graph/{id}\<close>. The fields \<open>id\<close>, \<open>label\<close> and \<open>type\<close> of a node are
  \<open>node_id\<close>, \<open>node_label\<close> and \<open>node_type\<close> here. Node ids, labels, types and
  edge endpoints are strings (graphology turns every key into a string); \<open>risk\<close> is a
  number, \<open>None\<close> when the field is missing or null.
\<close>

record graph_node =
  node_id :: jsstring
  node_label :: jsstring
  node_type :: jsstring
  risk :: "number option"
  is_flagged :: jsval

record graph_edge =
  source :: jsstring
  target :: jsstring
  direction :: jsstring

record graph_response =
  nodes :: "graph_node list"
  edges :: "graph_edge list"

text \<open>
  The attributes the page stores with a node (\<open>label\<close>, \<open>size\<close>, \<open>color\<close>, \<open>x\<close>,
  \<open>y\<close>, \<open>borderColor\<close>, \<open>borderSize\<close>) and with an edge (\<open>color\<close>, \<open>size\<close>,
  \<open>type\<close>).
\<close>

record node_attrs =
  attr_label :: jsstring
  attr_size :: real
  attr_color :: jsstring
  attr_x :: real
  attr_y :: real
  borderColor :: "jsstring option"
  borderSize :: real

record edge_attrs =
  edge_color :: jsstring
  edge_size :: real
  edge_type :: jsstring

text \<open>
  The graphology \<open>Graph\<close> as \<open>new Graph()\<close> makes it: mixed, not a multigraph, self
  loops allowed. Nodes and edges are kept in insertion order; an edge added with
  \<open>addEdge\<close> is directed and is keyed here by its pair of endpoints.
\<close>

record graph =
  g_nodes :: "(jsstring \<times> node_attrs) list"
  g_edges :: "((jsstring \<times> jsstring) \<times> edge_attrs) list"

datatype graph_error = UsageGraphError | NotFoundGraphError

definition emptyGraph :: graph where
  "emptyGraph = \<lparr>g_nodes = [], g_edges = []\<rparr>"

definition hasNode :: "graph \<Rightarrow> jsstring \<Rightarrow> bool" where
  "hasNode G k \<longleftrightarrow> k \<in> set (map fst (g_nodes G))"

text \<open>\<open>addNode\<close> throws a usage error when the key is already a node.\<close>

definition addNode :: "graph \<Rightarrow> jsstring \<Rightarrow> node_attrs \<Rightarrow> graph_error + graph" where
  "addNode G k a =
     (if hasNode G k then Inl UsageGraphError
      else Inr (G\<lparr>g_nodes := g_nodes G @ [(k, a)]\<rparr>))"

text \<open>
  The out-edges of a node are kept in a plain object keyed by the target.
  \<open>hasEdge(source, target)\<close> is false when the source is not a node, and otherwise asks
  for an own property of that object (\<open>hasOwnProperty\<close>).
\<close>

definition hasEdge :: "graph \<Rightarrow> jsstring \<Rightarrow> jsstring \<Rightarrow> bool" where
  "hasEdge G s t \<longleftrightarrow> hasNode G s \<and> (s, t) \<in> set (map fst (g_edges G))"

text \<open>
  The property names every plain object inherits from \<open>Object.prototype\<close> in a
  browser.
\<close>

definition objectPrototypeKeys :: "jsstring list" where
  "objectPrototypeKeys =
     map js [''constructor'', ''hasOwnProperty'', ''isPrototypeOf'', ''propertyIsEnumerable'',
             ''toLocaleString'', ''toString'', ''valueOf'', ''__proto__'',
             ''__defineGetter__'', ''__defineSetter__'', ''__lookupGetter__'',
             ''__lookupSetter__'']"

text \<open>
  \<open>addEdge\<close> throws a not-found error when an endpoint is not a node. Its collision
  test reads \<open>out[target]\<close> and throws a usage error when that is not \<open>undefined\<close>:
  when the graph already has an edge from the source to the target, and also when the
  target is keyed like an inherited property, which \<open>hasEdge\<close> does not see.
\<close>

definition addEdge :: "graph \<Rightarrow> jsstring \<Rightarrow> jsstring \<Rightarrow> edge_attrs \<Rightarrow> graph_error + graph" where
  "addEdge G s t a =
     (if \<not> hasNode G s \<or> \<not> hasNode G t then Inl NotFoundGraphError
      else if (s, t) \<in> set (map fst (g_edges G)) \<or> t \<in> set objectPrototypeKeys
        then Inl UsageGraphError
      else Inr (G\<lparr>g_edges := g_edges G @ [((s, t), a)]\<rparr>))"

text \<open>\<open>G.order\<close>, the number of nodes.\<close>

definition order :: "graph \<Rightarrow> nat" where
  "order G = length (g_nodes G)"

section \<open>Rendering the graph on the transaction page\<close>

definition getNodeColor :: "number \<Rightarrow> jsstring \<Rightarrow> bool \<Rightarrow> jsstring" where
  "getNodeColor risk' type' isFlagged =
     (if type' = js ''center'' then js ''#cc00ff''
      else if isFlagged then js ''#000000''
      else if js_ge risk' (Finite 80) then js ''#ff0000''
      else if js_ge risk' (Finite 60) then js ''#ff8c00''
      else if js_ge risk' (Finite 40) then js ''#ffd700''
      else js ''#00bfff'')"

definition getEdgeColor :: "jsstring \<Rightarrow> jsstring" where
  "getEdgeColor direction' =
     (if direction' = js ''outgoing'' then js ''#ff6b6b''
      else if direction' = js ''incoming'' then js ''#51cf66''
      else js ''#888888'')"

text \<open>\<open>n.risk || 0\<close>: a missing, zero or NaN risk becomes \<open>0\<close>.\<close>

definition riskOrZero :: "number option \<Rightarrow> number" where
  "riskOrZero r = (case r of Some v \<Rightarrow> (if truthy v then v else Finite 0) | None \<Rightarrow> Finite 0)"

text \<open>The code units of the flag emoji U+1F6A9 (a surrogate pair) and a space.\<close>

definition flagPrefix :: jsstring where
  "flagPrefix = [0xD83D, 0xDEA9, 0x20]"

text \<open>
  The node positions are computed in doubles. The index is below the length of the
  array, so the quotient, the angle, the cosine, the sine and the products are all
  finite, and each is modelled by the real it denotes. What the engine makes of an
  exact result is not fixed here: the rounding of a real to a double and the values
  of \<open>Math.cos\<close> and \<open>Math.sin\<close> (which the language leaves to the implementation)
  are the fields of \<open>arith\<close>.
\<close>

record arith =
  round_double :: "real \<Rightarrow> real"
  Math_cos :: "real \<Rightarrow> real"
  Math_sin :: "real \<Rightarrow> real"

text \<open>
  The double an arithmetic operation returns when its exact result is \<open>v\<close>: an exact
  zero is a zero, anything else is rounded by the engine.
\<close>

definition fl :: "arith \<Rightarrow> real \<Rightarrow> real" where
  "fl ar v = (if v = 0 then 0 else round_double ar v)"

text \<open>\<open>Math.PI\<close>, the double \<open>0x1.921fb54442d18p+1\<close>.\<close>

definition Math_PI :: real where
  "Math_PI = 884279719003555 / 2 ^ 48"

text \<open>\<open>(index / nodes.length) * 2 * Math.PI\<close>, evaluated from the left.\<close>

definition nodeAngle :: "arith \<Rightarrow> nat \<Rightarrow> nat \<Rightarrow> real" where
  "nodeAngle ar index len = fl ar (fl ar (fl ar (real index / real len) * 2) * Math_PI)"

text \<open>Arithmetic without rounding and with the exact cosine and sine, for comparison.\<close>

definition exactArith :: arith where
  "exactArith = \<lparr>round_double = id, Math_cos = cos, Math_sin = sin\<rparr>"

text \<open>
  The attribute object built in the callback of \<open>nodes.forEach\<close> for the node \<open>n\<close> at
  position \<open>index\<close> of an array of \<open>len\<close> nodes.
\<close>

definition nodeAttrs :: "arith \<Rightarrow> graph_node \<Rightarrow> nat \<Rightarrow> nat \<Rightarrow> node_attrs" where
  "nodeAttrs ar n index len =
     (let angle = nodeAngle ar index len;
          radius = (if node_type n = js ''center'' then 0 else 100);
          isFlagged = (is_flagged n = JBool True \<or> is_flagged n = JNum (Finite 1))
      in \<lparr>attr_label = (if isFlagged then flagPrefix @ node_label n else node_label n),
          attr_size = (if isFlagged then 20 else if node_type n = js ''center'' then 18 else 10),
          attr_color = getNodeColor (riskOrZero (risk n)) (node_type n) isFlagged,
          attr_x = fl ar (Math_cos ar angle * radius),
          attr_y = fl ar (Math_sin ar angle * radius),
          borderColor = (if isFlagged then Some (js ''#ff0000'') else None),
          borderSize = (if isFlagged then 3 else 0)\<rparr>)"

text \<open>
  \<open>nodes.forEach((n, index) => ...)\<close>: the remaining nodes, the index of the first of
  them and the length of the whole array. A throw of \<open>addNode\<close> would end the loop.
\<close>

fun addNodes ::
  "arith \<Rightarrow> graph \<Rightarrow> graph_node list \<Rightarrow> nat \<Rightarrow> nat \<Rightarrow> graph_error + graph"
where
  "addNodes ar G [] index len = Inr G"
| "addNodes ar G (n # ns) index len =
     (if \<not> hasNode G (node_id n)
      then (case addNode G (node_id n) (nodeAttrs ar n index len) of
              Inl e \<Rightarrow> Inl e
            | Inr G' \<Rightarrow> addNodes ar G' ns (Suc index) len)
      else addNodes ar G ns (Suc index) len)"

definition edgeAttrs :: "graph_edge \<Rightarrow> edge_attrs" where
  "edgeAttrs e =
     \<lparr>edge_color = getEdgeColor (direction e),
      edge_size = (if direction e = js ''indirect'' then 1 else 2),
      edge_type = js ''arrow''\<rparr>"

text \<open>\<open>edges.forEach(e => ...)\<close>; a throw of \<open>addEdge\<close> ends the loop and the effect.\<close>

fun addEdges :: "graph \<Rightarrow> graph_edge list \<Rightarrow> graph_error + graph" where
  "addEdges G [] = Inr G"
| "addEdges G (e # es) =
     (if \<not> hasEdge G (source e) (target e)
      then (case addEdge G (source e) (target e) (edgeAttrs e) of
              Inl err \<Rightarrow> Inl err
            | Inr G' \<Rightarrow> addEdges G' es)
      else addEdges G es)"

text \<open>
  The layout step. \<open>forceAtlas2.assign\<close> is a library call that writes new \<open>x\<close> and
  \<open>y\<close> attributes into every node of the graph; it is a parameter here, giving the
  new position of each node, or \<open>None\<close> when it throws (the page catches that and keeps
  the initial positions). It is called only when the graph has more than one node.
\<close>

type_synonym layout_fn = "graph \<Rightarrow> (jsstring \<Rightarrow> real \<times> real) option"

definition assignLayout :: "layout_fn \<Rightarrow> graph \<Rightarrow> graph" where
  "assignLayout forceAtlas2 G =
     (if order G > 1
      then (case forceAtlas2 G of
              Some pos \<Rightarrow>
                G\<lparr>g_nodes := map (\<lambda>(k, a). (k, a\<lparr>attr_x := fst (pos k), attr_y := snd (pos k)\<rparr>)) (g_nodes G)\<rparr>
            | None \<Rightarrow> G)
      else G)"

text \<open>
  The rendering effect from \<open>new Graph()\<close> on, for the nodes and edges of a graph
  response: the graph handed to Sigma, or the error that escapes the effect.
\<close>

definition buildGraph :: "arith \<Rightarrow> layout_fn \<Rightarrow> graph_response \<Rightarrow> graph_error + graph" where
  "buildGraph ar forceAtlas2 resp =
     (case addNodes ar emptyGraph (nodes resp) 0 (length (nodes resp)) of
        Inl e \<Rightarrow> Inl e
      | Inr G1 \<Rightarrow>
          (case addEdges G1 (edges resp) of
             Inl e \<Rightarrow> Inl e
           | Inr G2 \<Rightarrow> Inr (assignLayout forceAtlas2 G2)))"

text \<open>
  The whole rendering effect, which runs in the browser when the \<open>graph\<close> cell
  changes. It does nothing (\<open>None\<close>) when the cell is null or when the document has no
  \<open>sigma-container\<close> element; the page renders that element only when it is not
  loading, \<open>txData\<close> is set and the response has a node, so whether it is found is an
  argument. A response without \<open>nodes\<close> or \<open>edges\<close> is one with empty lists.
\<close>

definition renderEffect ::
  "arith \<Rightarrow> layout_fn \<Rightarrow> bool \<Rightarrow> graph_response option \<Rightarrow> (graph_error + graph) option"
where
  "renderEffect ar forceAtlas2 containerFound graph' =
     (case graph' of
        None \<Rightarrow> None
      | Some resp \<Rightarrow>
          (if \<not> containerFound then None else Some (buildGraph ar forceAtlas2 resp)))"

section \<open>An example graph response\<close>

text \<open>
  A response with a flagged center, a flagged neighbour listed twice, an unflagged
  neighbour without a risk value, and an edge listed twice.
\<close>

definition exampleCenter :: graph_node where
  "exampleCenter =
     \<lparr>node_id = js ''c'', node_label = js ''c'', node_type = js ''center'',
      risk = Some (Finite 95), is_flagged = JBool True\<rparr>"

definition exampleFlagged :: graph_node where
  "exampleFlagged =
     \<lparr>node_id = js ''a'', node_label = js ''a'', node_type = js ''neighbor'',
      risk = Some (Finite 95), is_flagged = JNum (Finite 1)\<rparr>"

definition exampleNeighbor :: graph_node where
  "exampleNeighbor =
     \<lparr>node_id = js ''b'', node_label = js ''b'', node_type = js ''neighbor'',
      risk = None, is_flagged = JBool False\<rparr>"

definition exampleResponse :: graph_response where
  "exampleResponse =
     \<lparr>nodes = [exampleCenter, exampleFlagged, exampleFlagged, exampleNeighbor],
      edges =
        [\<lparr>source = js ''c'', target = js ''a'', direction = js ''outgoing''\<rparr>,
         \<lparr>source = js ''b'', target = js ''c'', direction = js ''incoming''\<rparr>,
         \<lparr>source = js ''c'', target = js ''a'', direction = js ''outgoing''\<rparr>,
         \<lparr>source = js ''a'', target = js ''b'', direction = js ''indirect''\<rparr>]\<rparr>"

text \<open>A stand-in for the layout library that moves every node to \<open>(1, 2)\<close>.\<close>

definition examplePosition :: "jsstring \<Rightarrow> real \<times> real" where
  "examplePosition k = (1, 2)"

definition exampleLayout :: layout_fn where
  "exampleLayout G = Some examplePosition"



text \<open>A response with a node whose id is \<open>constructor\<close> and an edge into it.\<close>

definition inheritedKeyResponse :: graph_response where
  "inheritedKeyResponse =
     \<lparr>nodes = [exampleCenter, exampleNeighbor\<lparr>node_id := js ''constructor''\<rparr>],
      edges = [\<lparr>source = js ''c'', target = js ''constructor'', direction = js ''outgoing''\<rparr>]\<rparr>"

section \<open>The transaction page: state, depth buttons and fetches\<close>

text \<open>
  The \<open>useState\<close> cells of \<open>TxPage\<close>: \<open>txData\<close>, \<open>graph\<close>, \<open>loading\<close> (here
  \<open>loading_tx\<close>) and \<open>graphDepth\<close>, with their initial values.
\<close>

record tx_page =
  txData :: "TxResult option"
  graph :: "graph_response option"
  loading_tx :: bool
  graphDepth :: number

definition initialPage :: tx_page where
  "initialPage = \<lparr>txData = None, graph = None, loading_tx = True, graphDepth = Finite 1\<rparr>"

text \<open>
  The two requests of the fetch effect: \<open>/tx/{id}\<close> and
  \<open>/graph/{id}?depth={graphDepth}\<close>, the second with the depth it carries.
\<close>

datatype request = GetTx param | GetGraph param number

text \<open>\<open>!id\<close>: undefined and the empty string are falsy, an array is truthy.\<close>

fun falsy :: "param \<Rightarrow> bool" where
  "falsy PUndefined = True"
| "falsy (PString s) = (s = [])"
| "falsy (PArray _) = False"

text \<open>
  The effect with dependencies \<open>[id, graphDepth]\<close>: it returns at once on a falsy id,
  and otherwise sets \<open>loading\<close> and issues the two requests.
\<close>

definition fetchEffect :: "param \<Rightarrow> tx_page \<Rightarrow> tx_page \<times> request list" where
  "fetchEffect id' st =
     (if falsy id' then (st, [])
      else (st\<lparr>loading_tx := True\<rparr>, [GetTx id', GetGraph id' (graphDepth st)]))"

text \<open>The first render: the effect runs on the initial state.\<close>

definition mount :: "param \<Rightarrow> tx_page \<times> request list" where
  "mount id' = fetchEffect id' initialPage"

text \<open>
  \<open>setGraphDepth(d)\<close>: setting the value the cell already holds changes nothing;
  a new value re-renders the page and re-runs the fetch effect.
\<close>

definition setGraphDepth :: "param \<Rightarrow> number \<Rightarrow> tx_page \<Rightarrow> tx_page \<times> request list" where
  "setGraphDepth id' d st =
     (if graphDepth st = d then (st, []) else fetchEffect id' (st\<lparr>graphDepth := d\<rparr>))"

text \<open>
  What can happen to the mounted page: a click on one of the three depth buttons, or
  the pair of fetches settling. The buttons are rendered only when the page is not
  loading and \<open>txData\<close> is not null.
\<close>

datatype event =
  Click1Hop | Click2Hop | Click3Hop
  | FetchesResolved "TxResult option" "graph_response option"
  | FetchesRejected

definition buttonsRendered :: "tx_page \<Rightarrow> bool" where
  "buttonsRendered st \<longleftrightarrow> \<not> loading_tx st \<and> txData st \<noteq> None"

definition step :: "param \<Rightarrow> tx_page \<Rightarrow> event \<Rightarrow> tx_page \<times> request list" where
  "step id' st ev =
     (case ev of
        Click1Hop \<Rightarrow> (if buttonsRendered st then setGraphDepth id' (Finite 1) st else (st, []))
      | Click2Hop \<Rightarrow> (if buttonsRendered st then setGraphDepth id' (Finite 2) st else (st, []))
      | Click3Hop \<Rightarrow> (if buttonsRendered st then setGraphDepth id' (Finite 3) st else (st, []))
      | FetchesResolved tx graphData \<Rightarrow>
          (st\<lparr>txData := tx, graph := graphData, loading_tx := False\<rparr>, [])
      | FetchesRejected \<Rightarrow> (st\<lparr>loading_tx := False\<rparr>, []))"

text \<open>A run of events from a state, with the requests issued along the way.\<close>

fun run :: "param \<Rightarrow> tx_page \<Rightarrow> event list \<Rightarrow> tx_page \<times> request list" where
  "run id' st [] = (st, [])"
| "run id' st (ev # evs) =
     (case step id' st ev of
        (st1, rs1) \<Rightarrow> (case run id' st1 evs of (st2, rs2) \<Rightarrow> (st2, rs1 @ rs2)))"

text \<open>The life of the page for a route parameter: the mount, then the events.\<close>

definition session :: "param \<Rightarrow> event list \<Rightarrow> tx_page \<times> request list" where
  "session id' evs =
     (case mount id' of
        (st0, rs0) \<Rightarrow> (case run id' st0 evs of (st, rs) \<Rightarrow> (st, rs0 @ rs)))"

section \<open>The fusion scorer\<close>

text \<open>
  Modelled from the spec: the result and the error kind of the Fusion Scorer, which
  lives in the backend (\<open>backend/fusion_predictor.py\<close>) and is not among the sources.
\<close>

datatype fuse_error = InvalidInput

record fusion =
  fused_risk_score :: real
  fused_band :: jsstring
  fused_anomaly_norm :: real

text \<open>
  Modelled from the spec: \<open>fuse(fraud_prob, gnn_fraud_prob, anomaly_score)\<close> of the
  Fusion Scorer, whose code is not among the sources. The spec fixes neither the
  normalizing transform nor the combination rule, so both are parameters. A
  probability outside \<open>[0, 1]\<close> is rejected; otherwise the anomaly score is
  normalized, the three signals are combined, the combined value is scaled linearly
  to the score range and clamped to \<open>[0, 100]\<close>, and the band is read off the fixed
  thresholds.
\<close>

definition fuse ::
  "(real \<Rightarrow> real) \<Rightarrow> (real \<Rightarrow> real \<Rightarrow> real \<Rightarrow> real) \<Rightarrow> real \<Rightarrow> real \<Rightarrow> real \<Rightarrow> fuse_error + fusion"
where
  "fuse normalise combine fp gp anom =
     (if fp < 0 \<or> 1 < fp \<or> gp < 0 \<or> 1 < gp then Inl InvalidInput
      else
        (let nrm = normalise anom;
             combined = combine fp gp nrm;
             score = max 0 (min 100 (100 * combined))
         in Inr \<lparr>fused_risk_score = score,
                 fused_band =
                   (if score \<ge> 80 then js ''Critical''
                    else if score \<ge> 60 then js ''High''
                    else if score \<ge> 40 then js ''Medium''
                    else js ''Low''),
                 fused_anomaly_norm = nrm\<rparr>))"

text \<open>
  Example parameters: a min-max normalization against the range \<open>[-1, 1]\<close> and a
  weighted average of the three signals.
\<close>

definition exampleNormalize :: "real \<Rightarrow> real" where
  "exampleNormalize a = max 0 (min 1 ((a + 1) / 2))"

definition exampleCombine :: "real \<Rightarrow> real \<Rightarrow> real \<Rightarrow> real" where
  "exampleCombine fp gp nrm = (4 * fp + 4 * gp + 2 * nrm) / 10"

section \<open>Properties of the risk bands\<close>

lemma js_ge_trans_fin: "js_ge s (Finite a) \<Longrightarrow> b \<le> a \<Longrightarrow> js_ge s (Finite b)"
  by (cases s) auto

lemma js_lt_not_ge: "js_lt s (Finite a) \<Longrightarrow> a \<le> b \<Longrightarrow> \<not> js_ge s (Finite b)"
  by (cases s) auto

text \<open>
  Claim C1. Both copies of the risk-band function follow the fixed thresholds, each
  inclusive on its lower bound: a score at or above 80 is Critical, a score at or above
  60 and below 80 is High, a score at or above 40 and below 60 is Medium, and a score
  below 40 is Low.
\<close>

theorem riskBand_thresholds:
  "(js_ge s (Finite 80) \<longrightarrow>
      label (riskBand s) = js ''Critical'' \<and> label (riskBand_home s) = js ''Critical'')
   \<and> (js_ge s (Finite 60) \<and> js_lt s (Finite 80) \<longrightarrow>
      label (riskBand s) = js ''High'' \<and> label (riskBand_home s) = js ''High'')
   \<and> (js_ge s (Finite 40) \<and> js_lt s (Finite 60) \<longrightarrow>
      label (riskBand s) = js ''Medium'' \<and> label (riskBand_home s) = js ''Medium'')
   \<and> (js_lt s (Finite 40) \<longrightarrow>
      label (riskBand s) = js ''Low'' \<and> label (riskBand_home s) = js ''Low'')"
  by (cases s) (auto simp: riskBand_def riskBand_home_def)

theorem riskBand_thresholds_witness:
  "js_ge (Finite 80) (Finite 80) \<and> label (riskBand (Finite 80)) = js ''Critical''
   \<and> label (riskBand_home (Finite 80)) = js ''Critical''
   \<and> js_ge (Finite 79) (Finite 60) \<and> js_lt (Finite 79) (Finite 80)
   \<and> label (riskBand (Finite 79)) = js ''High''
   \<and> js_ge (Finite 40) (Finite 40) \<and> js_lt (Finite 40) (Finite 60)
   \<and> label (riskBand (Finite 40)) = js ''Medium''
   \<and> js_lt (Finite 39) (Finite 40) \<and> label (riskBand (Finite 39)) = js ''Low''"
  using riskBand_thresholds [of "Finite 80"] riskBand_thresholds [of "Finite 79"]
    riskBand_thresholds [of "Finite 40"] riskBand_thresholds [of "Finite 39"]
  by simp

text \<open>
  Claim C6. For every number, NaN and the infinities included, the label of the band is
  one of the four literals Low, Medium, High and Critical, in both copies of the function.
\<close>

theorem riskBand_label_four:
  "label (riskBand s) \<in> {js ''Low'', js ''Medium'', js ''High'', js ''Critical''}
   \<and> label (riskBand_home s) \<in> {js ''Low'', js ''Medium'', js ''High'', js ''Critical''}"
  by (simp add: riskBand_def riskBand_home_def)

section \<open>Properties of the predict page\<close>

lemma substring_prefix: "8 \<le> length s \<Longrightarrow> substring s 0 (Some 8) = take 8 s"
  by (simp add: substring_def Let_def)

lemma substring_suffix:
  "8 \<le> length s \<Longrightarrow> substring s (int (length s) - 8) None = drop (length s - 8) s"
  by (simp add: substring_def Let_def nat_diff_distrib' min_def max_def)

text \<open>
  Claim C9. The truncation of an identifier is the same function on both pages: the
  transaction page's \<open>displayId\<close> of a string is the predict page's
  \<open>getTruncatedId\<close> of it. An identifier of at most 16 code units is shown unchanged;
  a longer one is shown as its first 8 code units, three dots and its last 8 code
  units, 19 code units in all.
\<close>

theorem truncation_rule:
  "displayId (PString s) = PString (getTruncatedId s)
   \<and> (length s \<le> 16 \<longrightarrow> getTruncatedId s = s)
   \<and> (length s > 16 \<longrightarrow>
        getTruncatedId s = take 8 s @ js ''...'' @ drop (length s - 8) s
        \<and> length (getTruncatedId s) = 19)"
  by (auto simp: displayId_def getTruncatedId_def substring_prefix substring_suffix js_def)

theorem truncation_rule_witness:
  "length (js ''0123456789abcdefXYZ'') > 16
   \<and> getTruncatedId (js ''0123456789abcdefXYZ'') = js ''01234567...bcdefXYZ''
   \<and> length (js ''short-id'') \<le> 16 \<and> getTruncatedId (js ''short-id'') = js ''short-id''
   \<and> displayId (PString (js ''0123456789abcdefXYZ'')) = PString (js ''01234567...bcdefXYZ'')"
  using truncation_rule [of "js ''0123456789abcdefXYZ''"] truncation_rule [of "js ''short-id''"]
  by (simp add: js_def)

text \<open>
  Claim C5. A failed lookup never leaves a record behind. When the trimmed input is
  not empty and the fetch rejects, or the response is not ok, or its body does not
  parse, \<open>handleSubmit\<close> settles with \<open>result\<close> null, the not-found message in
  \<open>error\<close> and \<open>loading\<close> false; the handler always settles in a state, every throw
  being caught. A record is in \<open>result\<close> afterwards only if it is the body of an ok
  response. With an empty trimmed input the handler returns before touching the state.
\<close>

theorem handleSubmit_failed_lookup:
  "(trim (txId st) = [] \<longrightarrow> handleSubmit st f = st)
   \<and> (trim (txId st) \<noteq> [] \<longrightarrow>
        (f = FetchRejected \<or> (\<exists>b. f = Response False b) \<or> f = Response True JsonRejected \<longrightarrow>
           result (handleSubmit st f) = None
           \<and> error (handleSubmit st f) = notFoundMessage
           \<and> error (handleSubmit st f) \<noteq> []
           \<and> loading (handleSubmit st f) = False)
        \<and> (\<forall>d. result (handleSubmit st f) = Some d \<longrightarrow> f = Response True (Json (Some d))))"
  by (cases f)
    (auto simp: handleSubmit_def tryLookup_def notFoundMessage_def Let_def split: body.splits)

theorem handleSubmit_failed_lookup_witness:
  "trim (js ''not-a-real-id'') \<noteq> []
   \<and> result (handleSubmit
        \<lparr>txId = js ''not-a-real-id'', result = Some exampleTx, loading = False, error = []\<rparr>
        (Response False (Json (Some exampleTx)))) = None
   \<and> error (handleSubmit
        \<lparr>txId = js ''not-a-real-id'', result = Some exampleTx, loading = False, error = []\<rparr>
        (Response False (Json (Some exampleTx)))) = notFoundMessage"
  using handleSubmit_failed_lookup
    [of "\<lparr>txId = js ''not-a-real-id'', result = Some exampleTx, loading = False, error = []\<rparr>"
        "Response False (Json (Some exampleTx))"]
  by (simp add: trim_def js_def isWhiteSpace_def)

section \<open>The anomaly cell of the two pages\<close>

lemma anomaly_precedence:
  "anomaly_score t = Some raw \<Longrightarrow> anomaly_score_norm t = Some nrm \<Longrightarrow>
     anomalyShown_predict t = ToFixed 3 nrm
     \<and> anomaly (Some t) = Some raw
     \<and> (truthy raw \<longrightarrow> anomalyShown_tx (Some t) = ToFixed 3 raw)
     \<and> (\<not> truthy raw \<longrightarrow> anomalyShown_tx (Some t) = Dash)"
  by (simp add: anomaly_def anomalyShown_tx_def anomalyShown_predict_def nullish_def)

text \<open>
  Claim C10. With both anomaly fields present the predict page shows the normalized
  value and the transaction page selects the raw one. The transaction page's cell
  tests the selected value for truthiness, so for the record below, whose raw score
  is 0 and whose normalized score is 0.5, it shows the dash and not the raw value,
  while the predict page shows the normalized value.
\<close>

theorem anomaly_zero_raw_shows_dash:
  "anomaly_score exampleTx = Some (Finite 0)
   \<and> anomaly_score_norm exampleTx = Some (Finite 0.5)
   \<and> anomaly (Some exampleTx) = Some (Finite 0)
   \<and> anomalyShown_tx (Some exampleTx) = Dash
   \<and> anomalyShown_predict exampleTx = ToFixed 3 (Finite 0.5)"
  by (simp add: exampleTx_def anomaly_def anomalyShown_tx_def anomalyShown_predict_def
      nullish_def)

section \<open>Node colours\<close>











section \<open>The node loop\<close>

lemma addNodes_total: "\<exists>G'. addNodes ar G ns i len = Inr G'"
  by (induction ns arbitrary: G i) (auto simp: addNode_def)

lemma addNodes_edges: "addNodes ar G ns i len = Inr G' \<Longrightarrow> g_edges G' = g_edges G"
  by (induction ns arbitrary: G i) (auto simp: addNode_def split: if_splits)

lemma addNodes_keys:
  "addNodes ar G ns i len = Inr G' \<Longrightarrow>
     set (map fst (g_nodes G')) = set (map fst (g_nodes G)) \<union> node_id ` set ns"
proof (induction ns arbitrary: G i)
  case Nil
  then show ?case by simp
next
  case (Cons n ns)
  show ?case
  proof (cases "hasNode G (node_id n)")
    case True
    with Cons.prems have "addNodes ar G ns (Suc i) len = Inr G'" by simp
    from Cons.IH [OF this] True show ?thesis by (auto simp: hasNode_def)
  next
    case False
    let ?G1 = "G\<lparr>g_nodes := g_nodes G @ [(node_id n, nodeAttrs ar n i len)]\<rparr>"
    from False Cons.prems have "addNodes ar ?G1 ns (Suc i) len = Inr G'"
      by (simp add: addNode_def)
    from Cons.IH [OF this] show ?thesis by auto
  qed
qed

lemma addNodes_distinct:
  "addNodes ar G ns i len = Inr G' \<Longrightarrow> distinct (map fst (g_nodes G)) \<Longrightarrow>
     distinct (map fst (g_nodes G'))"
proof (induction ns arbitrary: G i)
  case Nil
  then show ?case by simp
next
  case (Cons n ns)
  show ?case
  proof (cases "hasNode G (node_id n)")
    case True
    with Cons.prems have "addNodes ar G ns (Suc i) len = Inr G'" by simp
    from Cons.IH [OF this Cons.prems(2)] show ?thesis .
  next
    case False
    let ?G1 = "G\<lparr>g_nodes := g_nodes G @ [(node_id n, nodeAttrs ar n i len)]\<rparr>"
    from False Cons.prems have run: "addNodes ar ?G1 ns (Suc i) len = Inr G'"
      by (simp add: addNode_def)
    from False Cons.prems(2) have "distinct (map fst (g_nodes ?G1))"
      by (simp add: hasNode_def)
    from Cons.IH [OF run this] show ?thesis .
  qed
qed







section \<open>The edge loop and the layout step\<close>

lemma addEdges_nodes: "addEdges G es = Inr G' \<Longrightarrow> g_nodes G' = g_nodes G"
  by (induction es arbitrary: G) (auto simp: addEdge_def split: if_splits)

lemma addEdges_step:
  "\<not> hasEdge G s t \<Longrightarrow> addEdge G s t a = Inr G1 \<Longrightarrow>
     (s, t) \<notin> set (map fst (g_edges G)) \<and> g_edges G1 = g_edges G @ [((s, t), a)]"
  by (auto simp: addEdge_def hasEdge_def split: if_splits)

lemma addEdges_distinct:
  "addEdges G es = Inr G' \<Longrightarrow> distinct (map fst (g_edges G)) \<Longrightarrow>
     distinct (map fst (g_edges G'))"
proof (induction es arbitrary: G)
  case Nil
  then show ?case by simp
next
  case (Cons e es)
  show ?case
  proof (cases "hasEdge G (source e) (target e)")
    case True
    with Cons.prems have "addEdges G es = Inr G'" by simp
    from Cons.IH [OF this Cons.prems(2)] show ?thesis .
  next
    case False
    with Cons.prems(1) obtain G1 where
      add: "addEdge G (source e) (target e) (edgeAttrs e) = Inr G1"
      and run: "addEdges G1 es = Inr G'"
      by (auto split: sum.splits)
    from addEdges_step [OF False add] Cons.prems(2) have "distinct (map fst (g_edges G1))"
      by simp
    from Cons.IH [OF run this] show ?thesis .
  qed
qed

lemma addEdges_keys:
  "addEdges G es = Inr G' \<Longrightarrow>
     set (map fst (g_edges G')) =
       set (map fst (g_edges G)) \<union> (\<lambda>e. (source e, target e)) ` set es"
proof (induction es arbitrary: G)
  case Nil
  then show ?case by simp
next
  case (Cons e es)
  show ?case
  proof (cases "hasEdge G (source e) (target e)")
    case True
    with Cons.prems have "addEdges G es = Inr G'" by simp
    from Cons.IH [OF this] True show ?thesis by (auto simp: hasEdge_def)
  next
    case False
    with Cons.prems(1) obtain G1 where
      add: "addEdge G (source e) (target e) (edgeAttrs e) = Inr G1"
      and run: "addEdges G1 es = Inr G'"
      by (auto split: sum.splits)
    from addEdges_step [OF False add] Cons.IH [OF run] show ?thesis by auto
  qed
qed

text \<open>
  The guard on \<open>hasEdge\<close> keeps a repeated pair away from \<open>addEdge\<close>; a usage error
  can still escape the loop, but only for a target keyed like an inherited property.
\<close>

lemma addEdges_usage_error:
  "addEdges G es = Inl UsageGraphError \<Longrightarrow> \<exists>e\<in>set es. target e \<in> set objectPrototypeKeys"
  by (induction es arbitrary: G)
    (auto simp: addEdge_def hasEdge_def split: if_splits sum.splits)

lemma inherited_key_throws:
  "buildGraph ar layout inheritedKeyResponse = Inl UsageGraphError"
  by (simp add: buildGraph_def inheritedKeyResponse_def exampleCenter_def exampleNeighbor_def
      emptyGraph_def hasNode_def addNode_def hasEdge_def addEdge_def objectPrototypeKeys_def
      js_def)

lemma assignLayout_keys:
  "map fst (g_nodes (assignLayout f G)) = map fst (g_nodes G)
   \<and> g_edges (assignLayout f G) = g_edges G"
  by (auto simp: assignLayout_def split: option.splits)




lemma example_build:
  "\<exists>G. buildGraph exactArith exampleLayout exampleResponse = Inr G
     \<and> map fst (g_nodes G) = [js ''c'', js ''a'', js ''b'']
     \<and> map fst (g_edges G) = [(js ''c'', js ''a''), (js ''b'', js ''c''), (js ''a'', js ''b'')]"
  by (simp add: buildGraph_def exampleResponse_def exampleLayout_def emptyGraph_def
      exampleCenter_def exampleFlagged_def exampleNeighbor_def objectPrototypeKeys_def
      hasNode_def addNode_def hasEdge_def addEdge_def assignLayout_def order_def js_def)

section \<open>Properties of the rendered graph\<close>

text \<open>
  Claim C2. The graph built for rendering has no duplicate node and no duplicate
  (source, target) edge, whatever the response repeats: whenever the effect hands a
  graph to the renderer, its node keys are distinct and are exactly the node ids of
  the response, and its edge keys are distinct and are exactly the (source, target)
  pairs of the response. Each id and each pair has been added once, behind the guards
  on \<open>hasNode\<close> and \<open>hasEdge\<close>.
\<close>

theorem renderEffect_no_duplicates:
  "renderEffect ar layout containerFound g = Some (Inr G) \<Longrightarrow>
     distinct (map fst (g_nodes G)) \<and> distinct (map fst (g_edges G))
     \<and> (\<exists>resp. g = Some resp
          \<and> set (map fst (g_nodes G)) = node_id ` set (nodes resp)
          \<and> set (map fst (g_edges G)) = (\<lambda>e. (source e, target e)) ` set (edges resp))"
proof -
  assume r: "renderEffect ar layout containerFound g = Some (Inr G)"
  then obtain resp where g: "g = Some resp" and b: "buildGraph ar layout resp = Inr G"
    by (auto simp: renderEffect_def split: option.splits if_splits)
  obtain G1 where n: "addNodes ar emptyGraph (nodes resp) 0 (length (nodes resp)) = Inr G1"
    using addNodes_total by blast
  from b n obtain G2 where e: "addEdges G1 (edges resp) = Inr G2"
    and l: "G = assignLayout layout G2"
    by (auto simp: buildGraph_def split: sum.splits)
  have d1: "distinct (map fst (g_nodes G1))"
    using addNodes_distinct [OF n] by (simp add: emptyGraph_def)
  have k1: "set (map fst (g_nodes G1)) = node_id ` set (nodes resp)"
    using addNodes_keys [OF n] by (simp add: emptyGraph_def)
  have e1: "g_edges G1 = []"
    using addNodes_edges [OF n] by (simp add: emptyGraph_def)
  have d2: "distinct (map fst (g_edges G2))"
    using addEdges_distinct [OF e] e1 by simp
  have k2: "set (map fst (g_edges G2)) = (\<lambda>e. (source e, target e)) ` set (edges resp)"
    using addEdges_keys [OF e] e1 by simp
  have n2: "g_nodes G2 = g_nodes G1" by (rule addEdges_nodes [OF e])
  from g l d1 k1 d2 k2 n2 show ?thesis
    by (simp add: assignLayout_keys)
qed

theorem renderEffect_no_duplicates_witness:
  "\<exists>G. renderEffect exactArith exampleLayout True (Some exampleResponse) = Some (Inr G)
     \<and> map fst (g_nodes G) = [js ''c'', js ''a'', js ''b'']
     \<and> map fst (g_edges G) = [(js ''c'', js ''a''), (js ''b'', js ''c''), (js ''a'', js ''b'')]
     \<and> distinct (map fst (g_nodes G)) \<and> distinct (map fst (g_edges G))"
proof -
  from example_build obtain G
    where b: "buildGraph exactArith exampleLayout exampleResponse = Inr G"
    and k1: "map fst (g_nodes G) = [js ''c'', js ''a'', js ''b'']"
    and k2: "map fst (g_edges G)
      = [(js ''c'', js ''a''), (js ''b'', js ''c''), (js ''a'', js ''b'')]"
    by (elim exE conjE)
  from b have r: "renderEffect exactArith exampleLayout True (Some exampleResponse) = Some (Inr G)"
    by (simp add: renderEffect_def)
  from renderEffect_no_duplicates [OF r]
  have "distinct (map fst (g_nodes G)) \<and> distinct (map fst (g_edges G))"
    by (elim conjE) (intro conjI)
  with r k1 k2 show ?thesis by (intro exI [of _ G]) (simp only: simp_thms)
qed




section \<open>Properties of the depth control\<close>

lemma fetchEffect_depth:
  "fetchEffect p st = (st', rs) \<Longrightarrow>
     graphDepth st' = graphDepth st
     \<and> (\<forall>r\<in>set rs. \<forall>q d. r = GetGraph q d \<longrightarrow> d = graphDepth st)"
  by (auto simp: fetchEffect_def split: if_splits)

lemma setGraphDepth_depth:
  assumes "setGraphDepth p d st = (st', rs)"
  shows "(graphDepth st' = d)
     \<and> (\<forall>r\<in>set rs. \<forall>q d'. r = GetGraph q d' \<longrightarrow> d' = d)"
proof (cases "graphDepth st = d")
  case True
  with assms show ?thesis by (simp add: setGraphDepth_def)
next
  case False
  with assms have "fetchEffect p (st\<lparr>graphDepth := d\<rparr>) = (st', rs)"
    by (simp add: setGraphDepth_def)
  from fetchEffect_depth [OF this] show ?thesis by simp
qed

lemma step_depth:
  assumes "step p st ev = (st', rs)"
    and "graphDepth st \<in> {Finite 1, Finite 2, Finite 3}"
  shows "graphDepth st' \<in> {Finite 1, Finite 2, Finite 3}
     \<and> (\<forall>r\<in>set rs. \<forall>q d. r = GetGraph q d \<longrightarrow> d \<in> {Finite 1, Finite 2, Finite 3})"
proof (cases ev)
  case Click1Hop
  show ?thesis
  proof (cases "buttonsRendered st")
    case True
    with Click1Hop assms(1) have "setGraphDepth p (Finite 1) st = (st', rs)"
      by (simp add: step_def)
    from setGraphDepth_depth [OF this] show ?thesis by simp
  next
    case False
    with Click1Hop assms show ?thesis by (simp add: step_def)
  qed
next
  case Click2Hop
  show ?thesis
  proof (cases "buttonsRendered st")
    case True
    with Click2Hop assms(1) have "setGraphDepth p (Finite 2) st = (st', rs)"
      by (simp add: step_def)
    from setGraphDepth_depth [OF this] show ?thesis by simp
  next
    case False
    with Click2Hop assms show ?thesis by (simp add: step_def)
  qed
next
  case Click3Hop
  show ?thesis
  proof (cases "buttonsRendered st")
    case True
    with Click3Hop assms(1) have "setGraphDepth p (Finite 3) st = (st', rs)"
      by (simp add: step_def)
    from setGraphDepth_depth [OF this] show ?thesis by simp
  next
    case False
    with Click3Hop assms show ?thesis by (simp add: step_def)
  qed
next
  case (FetchesResolved tx g)
  with assms show ?thesis by (auto simp: step_def)
next
  case FetchesRejected
  with assms show ?thesis by (auto simp: step_def)
qed

lemma run_depth:
  "graphDepth st \<in> {Finite 1, Finite 2, Finite 3} \<Longrightarrow> run p st evs = (st', rs) \<Longrightarrow>
     graphDepth st' \<in> {Finite 1, Finite 2, Finite 3}
     \<and> (\<forall>r\<in>set rs. \<forall>q d. r = GetGraph q d \<longrightarrow> d \<in> {Finite 1, Finite 2, Finite 3})"
proof (induction evs arbitrary: st st' rs)
  case Nil
  then show ?case by simp
next
  case (Cons ev evs)
  obtain st1 rs1 where s: "step p st ev = (st1, rs1)" by (cases "step p st ev")
  obtain st2 rs2 where r: "run p st1 evs = (st2, rs2)" by (cases "run p st1 evs")
  from Cons.prems(2) s r have eq: "st' = st2" "rs = rs1 @ rs2" by simp_all
  from step_depth [OF s Cons.prems(1)]
  have d1: "graphDepth st1 \<in> {Finite 1, Finite 2, Finite 3}"
    and r1: "\<forall>r\<in>set rs1. \<forall>q d. r = GetGraph q d \<longrightarrow> d \<in> {Finite 1, Finite 2, Finite 3}"
    by simp_all
  from Cons.IH [OF d1 r]
  have d2: "graphDepth st2 \<in> {Finite 1, Finite 2, Finite 3}"
    and r2: "\<forall>r\<in>set rs2. \<forall>q d. r = GetGraph q d \<longrightarrow> d \<in> {Finite 1, Finite 2, Finite 3}"
    by simp_all
  from d2 r1 r2 show ?case unfolding eq by auto
qed

text \<open>
  Claim C4. Every graph request of the transaction page carries a depth of 1, 2 or 3:
  \<open>graphDepth\<close> starts at 1 and only the three buttons set it, to the literals 1, 2
  and 3, so after any sequence of clicks and settled fetches the cell holds one of
  the three values and so does the depth of every \<open>/graph\<close> request issued.
\<close>

theorem graph_request_depth:
  "graphDepth (fst (session p evs)) \<in> {Finite 1, Finite 2, Finite 3}
   \<and> (\<forall>r\<in>set (snd (session p evs)).
        \<forall>q d. r = GetGraph q d \<longrightarrow> d \<in> {Finite 1, Finite 2, Finite 3})"
proof -
  obtain st0 rs0 where m: "mount p = (st0, rs0)" by (cases "mount p")
  obtain st rs where r: "run p st0 evs = (st, rs)" by (cases "run p st0 evs")
  from m have f: "fetchEffect p initialPage = (st0, rs0)" by (simp add: mount_def)
  from fetchEffect_depth [OF f]
  have d0: "graphDepth st0 \<in> {Finite 1, Finite 2, Finite 3}"
    and r0: "\<forall>r\<in>set rs0. \<forall>q d. r = GetGraph q d \<longrightarrow> d \<in> {Finite 1, Finite 2, Finite 3}"
    by (simp_all add: initialPage_def)
  from run_depth [OF d0 r] r0 m r show ?thesis
    by (auto simp: session_def)
qed

theorem graph_request_depth_witness:
  "snd (session (PString (js ''ab12''))
          [FetchesResolved (Some exampleTx) (Some exampleResponse), Click3Hop, Click3Hop])
     = [GetTx (PString (js ''ab12'')), GetGraph (PString (js ''ab12'')) (Finite 1),
        GetTx (PString (js ''ab12'')), GetGraph (PString (js ''ab12'')) (Finite 3)]
   \<and> graphDepth (fst (session (PString (js ''ab12''))
          [FetchesResolved (Some exampleTx) (Some exampleResponse), Click3Hop, Click3Hop]))
     = Finite 3"
  using graph_request_depth [of "PString (js ''ab12'')"
      "[FetchesResolved (Some exampleTx) (Some exampleResponse), Click3Hop, Click3Hop]"]
  by (simp add: session_def mount_def fetchEffect_def initialPage_def step_def
      setGraphDepth_def buttonsRendered_def js_def)

section \<open>Properties of the fusion scorer\<close>

text \<open>
  Claim C3. For every valid triple, that is for probabilities in \<open>[0, 1]\<close> and any
  anomaly score, \<open>fuse\<close> returns a result and its risk score lies in \<open>[0, 100]\<close>,
  whatever the normalizing transform and the combination rule are.
\<close>

theorem fuse_score_range:
  "0 \<le> fp \<and> fp \<le> 1 \<and> 0 \<le> gp \<and> gp \<le> 1 \<Longrightarrow>
     \<exists>r. fuse normalise combine fp gp anom = Inr r
        \<and> 0 \<le> fused_risk_score r \<and> fused_risk_score r \<le> 100"
  by (auto simp: fuse_def Let_def)

theorem fuse_score_range_witness:
  "(0::real) \<le> 0.92 \<and> (0.92::real) \<le> 1 \<and> (0::real) \<le> 0.1 \<and> (0.1::real) \<le> 1
   \<and> (\<exists>r. fuse exampleNormalize exampleCombine 0.92 0.1 (-0.2) = Inr r
          \<and> fused_risk_score r = 48.8 \<and> 0 \<le> fused_risk_score r \<and> fused_risk_score r \<le> 100)"
  using fuse_score_range [where fp = "0.92" and gp = "0.1" and normalise = exampleNormalize
      and combine = exampleCombine and anom = "-0.2"]
  by (simp add: fuse_def exampleNormalize_def exampleCombine_def Let_def)

end
